theory Spec2Isabelle
  imports Main
begin

section \<open>The \<open>init\<close> command of sidekick (src/cmd/init.go)\<close>

text \<open>
  The command collects a server address and a certificate email, logs into the server
  as \<open>root\<close>, creates the \<open>sidekick\<close> account, logs in again as \<open>sidekick\<close>, runs the
  setup, Docker and Traefik stages, generates an age key pair, and writes the
  configuration file. The model is a pure function from a world (the answers of
  everything outside the file: the operator, the viper library, the \<open>utils\<close> package, the
  file system) to the way the process ends, the final state and the log of what was
  called, in order.
\<close>

subsection \<open>Go strings\<close>

text \<open>\<open>strings.HasPrefix(s, prefix)\<close>: \<open>len(s) >= len(prefix) && s[:len(prefix)] == prefix\<close>.\<close>

definition HasPrefix :: "string \<Rightarrow> string \<Rightarrow> bool" where
  "HasPrefix s p = (length p \<le> length s \<and> take (length p) s = p)"

text \<open>
  \<open>strings.Split(s, sep)\<close> for a separator of one byte: the substrings between the
  separators, one more than there are separators (so the empty string gives one empty
  substring, and two adjacent separators give an empty substring between them).
\<close>

fun Split :: "string \<Rightarrow> char \<Rightarrow> string list" where
  "Split [] c = [[]]"
| "Split (x # xs) c =
     (if x = c then [] # Split xs c
      else (case Split xs c of [] \<Rightarrow> [[x]] | w # ws \<Rightarrow> (x # w) # ws))"

subsection \<open>Values\<close>

text \<open>A Go \<open>error\<close> value, by its message.\<close>

datatype go_error = GoError string

text \<open>
  What a \<open>panic\<close> carries: an error passed to \<open>panic(err)\<close>, or the runtime error of a
  slice expression \<open>s[low:high]\<close> whose \<open>high\<close> is beyond the capacity.
\<close>

datatype panic_value = PanicError go_error | SliceBoundsOutOfRange nat nat

text \<open>
  How the process ends: the command function returns, \<open>os.Exit(n)\<close> is called
  (\<open>log.Fatalf\<close> and \<open>cobra.CheckErr\<close> call \<open>os.Exit(1)\<close>), or a panic reaches the top of
  the goroutine.
\<close>

datatype outcome = Returned | Exit nat | Panic panic_value

text \<open>
  The exit status of the process: a Go program whose command function returns ends with
  status 0, \<open>os.Exit(n)\<close> ends it with \<open>n\<close>, and an unrecovered panic ends it with status 2.
\<close>

fun exit_status :: "outcome \<Rightarrow> nat" where
  "exit_status Returned = 0"
| "exit_status (Exit n) = n"
| "exit_status (Panic v) = 2"

text \<open>
  An \<open>*ssh.Client\<close> returned by \<open>utils.Login(server, user)\<close>, identified by the host and
  the account it was opened for.
\<close>

datatype ssh_client = SshClient string string

fun client_user :: "ssh_client \<Rightarrow> string" where
  "client_user (SshClient host user) = user"

text \<open>
  The stages of the \<open>utils\<close> package that the command runs: three package variables and
  the result of \<open>utils.GetTraefikStage(certEmail)\<close>. Their command lists are not in
  this file; a stage is named by how the command refers to it.
\<close>

datatype stage = UsersetupStage | SetupStage | DockerStage | GetTraefikStage string

datatype spinner =
  rootLoginSpinner | stage0Spinner | sidekickLoginSpinner
  | stage1Spinner | stage2Spinner | stage3Spinner

text \<open>
  The log of a run, in order: the calls that leave the process (with what they
  returned, \<open>None\<close> for a nil error) and the messages that report an outcome. The
  welcome banner, the headers, the start of the spinners and their animation are
  cosmetic and left out.
\<close>

datatype event =
    TextInputShow string
  | ErrorPrint string
  | LogFatal string
  | CheckErr go_error
  | MkdirAllCall string "go_error option"
  | CreateCall string "go_error option"
  | LoginCall string string "go_error option"
  | RunStageCall ssh_client stage "go_error option"
  | RunCommandCall ssh_client string "go_error option"
  | WriteConfigCall "go_error option"
  | SpinnerSuccess spinner
  | SpinnerFail spinner
  | InfoPrint string

text \<open>
  The state a run changes: viper's settings in memory, the configuration file on disk
  (\<open>None\<close> when the file does not exist, otherwise the settings it holds), and the log.
\<close>

record state =
  settings :: "string \<rightharpoonup> string"
  disk :: "(string \<rightharpoonup> string) option"
  trace :: "event list"

text \<open>
  The world outside the file. \<open>stored\<close> is what viper knows when the command starts
  (the bound flags \<open>--server\<close> and \<open>--email\<close>, and any configuration it has read);
  \<open>serverInput\<close> and \<open>certEmailInput\<close> are what the operator types when asked. The
  functions of the \<open>utils\<close> package are not in this file and are parameters:
  \<open>utils_Login\<close> and \<open>utils_RunStage\<close> return \<open>None\<close> for a nil error, and
  \<open>utils_RunCommand\<close> returns the session error or the string that its channel
  delivers. \<open>UserHomeDir\<close>, \<open>MkdirAll\<close> and \<open>Create\<close> are the answers of the file system
  to \<open>initConfig\<close>, and \<open>WriteConfig\<close> is whether writing the configuration file fails.
  Every call that leaves the file is taken to return: a remote command that never ends,
  or a channel that never delivers, is not modelled.
\<close>

record world =
  stored :: "string \<rightharpoonup> string"
  disk0 :: "(string \<rightharpoonup> string) option"
  serverInput :: string
  certEmailInput :: string
  utils_IsValidIPAddress :: "string \<Rightarrow> bool"
  utils_Login :: "string \<Rightarrow> string \<Rightarrow> go_error option"
  utils_RunStage :: "ssh_client \<Rightarrow> stage \<Rightarrow> go_error option"
  utils_RunCommand :: "ssh_client \<Rightarrow> string \<Rightarrow> go_error + string"
  WriteConfig :: "go_error option"
  UserHomeDir :: "go_error + string"
  MkdirAll :: "string \<Rightarrow> go_error option"
  Create :: "string \<Rightarrow> go_error option"

definition emit :: "event list \<Rightarrow> state \<Rightarrow> state" where
  "emit es s = s\<lparr>trace := trace s @ es\<rparr>"

subsection \<open>The viper library\<close>

text \<open>\<open>viper.GetString(key)\<close>: the value of the key, the empty string when it has none.\<close>

definition viper_GetString :: "state \<Rightarrow> string \<Rightarrow> string" where
  "viper_GetString s k = (case settings s k of None \<Rightarrow> [] | Some v \<Rightarrow> v)"

text \<open>\<open>viper.Set(key, value)\<close>: changes the settings in memory only.\<close>

definition viper_Set :: "string \<Rightarrow> string \<Rightarrow> state \<Rightarrow> state" where
  "viper_Set k v s = s\<lparr>settings := (settings s)(k \<mapsto> v)\<rparr>"

text \<open>
  \<open>viper.WriteConfig()\<close>: writes the settings in memory to the configuration file, or
  returns an error. What a failed write leaves on disk is up to the library; the model
  leaves the file as it was.
\<close>

definition viper_WriteConfig :: "world \<Rightarrow> state \<Rightarrow> go_error option \<times> state" where
  "viper_WriteConfig w s =
     (case WriteConfig w of
        Some e \<Rightarrow> (Some e, emit [WriteConfigCall (Some e)] s)
      | None \<Rightarrow> (None, emit [WriteConfigCall None] (s\<lparr>disk := Some (settings s)\<rparr>)))"

subsection \<open>\<open>initConfig\<close> (lines 151 to 175)\<close>

text \<open>
  Registered with \<open>cobra.OnInitialize\<close>, so cobra calls it before the command function.
  \<open>os.Create\<close> creates the file, and truncates it when it exists: after a successful call
  the file exists and is empty. The result is \<open>Some\<close> outcome when the process ends here.
\<close>

definition initConfig :: "world \<Rightarrow> state \<Rightarrow> outcome option \<times> state" where
  "initConfig w s =
     (case UserHomeDir w of
        Inl err \<Rightarrow> (Some (Exit 1), emit [CheckErr err] s)
      | Inr home \<Rightarrow>
          (let configPath = home @ ''/.config/sidekick'';
               configFile = configPath @ ''/default.yaml''
           in case MkdirAll w configPath of
                Some makeDirErr \<Rightarrow>
                  (Some (Exit 1),
                   emit [MkdirAllCall configPath (Some makeDirErr),
                         LogFatal ''Error creating directory''] s)
              | None \<Rightarrow>
                  (case Create w configFile of
                     Some fileCreateErr \<Rightarrow>
                       (Some (Exit 1),
                        emit [MkdirAllCall configPath None,
                              CreateCall configFile (Some fileCreateErr),
                              LogFatal ''Error creating configFile''] s)
                   | None \<Rightarrow>
                       (None,
                        emit [MkdirAllCall configPath None, CreateCall configFile None]
                          (s\<lparr>disk := Some Map.empty\<rparr>)))))"

subsection \<open>The command function (lines 37 to 148)\<close>

text \<open>
  Lines 44 to 52: the server address is asked for and validated only when viper has
  none. \<open>Inl\<close> is the state at \<open>os.Exit(0)\<close>.
\<close>

definition askServer :: "world \<Rightarrow> string \<Rightarrow> state \<Rightarrow> state + (string \<times> state)" where
  "askServer w server s =
     (if server = [] then
        (let server' = serverInput w;
             s' = emit [TextInputShow ''Please enter the IPv4 Address of your VPS''] s
         in if \<not> utils_IsValidIPAddress w server'
            then Inl (emit [ErrorPrint (''You entered an incorrect IP Address - '' @ server')] s')
            else Inr (server', s'))
      else Inr (server, s))"

text \<open>Lines 54 to 62: the same for the certificate email, which must not be empty.\<close>

definition askCertEmail :: "world \<Rightarrow> string \<Rightarrow> state \<Rightarrow> state + (string \<times> state)" where
  "askCertEmail w certEmail s =
     (if certEmail = [] then
        (let certEmail' = certEmailInput w;
             s' = emit [TextInputShow ''Please enter an email for use with TLS certs''] s
         in if certEmail' = []
            then Inl (emit [ErrorPrint ''An email is needed before you proceed''] s')
            else Inr (certEmail', s'))
      else Inr (certEmail, s))"

text \<open>The command line of line 110.\<close>

definition keygenCommand :: string where
  "keygenCommand =
     ''mkdir -p $HOME/.config/sops/age/ && age-keygen -o $HOME/.config/sops/age/keys.txt 2>&1 ''"

text \<open>
  The slice expression \<open>s[2:3]\<close> of line 118 on the result of \<open>strings.Split\<close>, whose
  capacity is its length: a runtime panic when the slice has fewer than three elements.
\<close>

definition slice_2_3 :: "'a list \<Rightarrow> panic_value + 'a list" where
  "slice_2_3 xs =
     (if 3 \<le> length xs then Inr (take 1 (drop 2 xs))
      else Inl (SliceBoundsOutOfRange 3 (length xs)))"

text \<open>
  Lines 116 to 120: when the output starts with \<open>Public key\<close>, the third of its
  space-separated pieces is stored under \<open>publicKey\<close>; otherwise nothing is done.
  (\<open>publicKey[0]\<close> is in range: the slice has one element.)
\<close>

definition extractPublicKey :: "string \<Rightarrow> state \<Rightarrow> panic_value + state" where
  "extractPublicKey output s =
     (if HasPrefix output ''Public key'' then
        (case slice_2_3 (Split output CHR '' '') of
           Inl p \<Rightarrow> Inl p
         | Inr publicKey \<Rightarrow> Inr (viper_Set ''publicKey'' (publicKey ! 0) s))
      else Inr s)"

text \<open>Lines 72 to 148: the logins, the stages, the key generation and the write.\<close>

definition provision :: "world \<Rightarrow> string \<Rightarrow> string \<Rightarrow> state \<Rightarrow> outcome \<times> state" where
  "provision w server certEmail s =
     (case utils_Login w server ''root'' of
        Some err \<Rightarrow>
          (Exit 1,
           emit [LoginCall server ''root'' (Some err),
                 LogFatal ''Unable to login using 'root' user''] s)
      | None \<Rightarrow>
     (let rootSshClient = SshClient server ''root'';
          s = emit [LoginCall server ''root'' None, SpinnerSuccess rootLoginSpinner] s
      in case utils_RunStage w rootSshClient UsersetupStage of
        Some err \<Rightarrow>
          (Panic (PanicError err),
           emit [RunStageCall rootSshClient UsersetupStage (Some err),
                 SpinnerFail stage0Spinner] s)
      | None \<Rightarrow>
     (let s = emit [RunStageCall rootSshClient UsersetupStage None,
                    SpinnerSuccess stage0Spinner] s
      in case utils_Login w server ''sidekick'' of
        Some err \<Rightarrow>
          (Panic (PanicError err),
           emit [LoginCall server ''sidekick'' (Some err),
                 SpinnerFail sidekickLoginSpinner] s)
      | None \<Rightarrow>
     (let sidekickSshClient = SshClient server ''sidekick'';
          s = emit [LoginCall server ''sidekick'' None,
                    SpinnerSuccess sidekickLoginSpinner] s
      in case utils_RunStage w sidekickSshClient SetupStage of
        Some err \<Rightarrow>
          (Panic (PanicError err),
           emit [RunStageCall sidekickSshClient SetupStage (Some err),
                 SpinnerFail stage1Spinner] s)
      | None \<Rightarrow>
     (let s = emit [RunStageCall sidekickSshClient SetupStage None] s
      in case utils_RunCommand w sidekickSshClient keygenCommand of
        Inl sessionErr \<Rightarrow>
          (Panic (PanicError sessionErr),
           emit [RunCommandCall sidekickSshClient keygenCommand (Some sessionErr),
                 SpinnerFail stage1Spinner] s)
      | Inr output \<Rightarrow>
     (let s = emit [RunCommandCall sidekickSshClient keygenCommand None] s
      in case extractPublicKey output s of
        Inl p \<Rightarrow> (Panic p, s)
      | Inr s \<Rightarrow>
     (let s = emit [SpinnerSuccess stage1Spinner] s
      in case utils_RunStage w sidekickSshClient DockerStage of
        Some err \<Rightarrow>
          (Panic (PanicError err),
           emit [RunStageCall sidekickSshClient DockerStage (Some err),
                 SpinnerFail stage2Spinner] s)
      | None \<Rightarrow>
     (let s = emit [RunStageCall sidekickSshClient DockerStage None,
                    SpinnerSuccess stage2Spinner] s;
          traefikStage = GetTraefikStage certEmail
      in case utils_RunStage w sidekickSshClient traefikStage of
        Some err \<Rightarrow>
          (Panic (PanicError err),
           emit [RunStageCall sidekickSshClient traefikStage (Some err),
                 SpinnerFail stage3Spinner] s)
      | None \<Rightarrow>
     (let s = emit [RunStageCall sidekickSshClient traefikStage None,
                    SpinnerSuccess stage3Spinner] s
      in case viper_WriteConfig w s of
        (Some err, s) \<Rightarrow> (Panic (PanicError err), s)
      | (None, s) \<Rightarrow>
          (Returned,
           emit [InfoPrint
             ''Your VPS is ready! You can now run Sidekick launch in your app folder''] s))))))))))"

text \<open>Lines 37 to 70, then the rest.\<close>

definition Run :: "world \<Rightarrow> state \<Rightarrow> outcome \<times> state" where
  "Run w s =
     (let server = viper_GetString s ''serverAddress'';
          certEmail = viper_GetString s ''certEmail''
      in case askServer w server s of
           Inl s \<Rightarrow> (Exit 0, s)
         | Inr (server, s) \<Rightarrow>
             (case askCertEmail w certEmail s of
                Inl s \<Rightarrow> (Exit 0, s)
              | Inr (certEmail, s) \<Rightarrow>
                  provision w server certEmail
                    (viper_Set ''certEmail'' certEmail
                      (viper_Set ''serverAddress'' server s))))"

subsection \<open>One invocation of \<open>sidekick init\<close>\<close>

definition initial :: "world \<Rightarrow> state" where
  "initial w = \<lparr>settings = stored w, disk = disk0 w, trace = []\<rparr>"

definition sidekick_init :: "world \<Rightarrow> outcome \<times> state" where
  "sidekick_init w =
     (case initConfig w (initial w) of
        (Some out, s) \<Rightarrow> (out, s)
      | (None, s) \<Rightarrow> Run w s)"

subsection \<open>Reading the log\<close>

text \<open>
  The calls of a run that open a session, run a stage, run the key-generation command
  or write the configuration, each with whether it succeeded.
\<close>

datatype phase =
  BootstrapLogin | AccountCreation | OperationalLogin | BaseSetup
  | KeyGeneration | DockerSetup | TraefikSetup | Persistence

fun phase_of :: "event \<Rightarrow> (phase \<times> bool) option" where
  "phase_of (LoginCall h u r) =
     (if u = ''root'' then Some (BootstrapLogin, r = None)
      else if u = ''sidekick'' then Some (OperationalLogin, r = None) else None)"
| "phase_of (RunStageCall c UsersetupStage r) = Some (AccountCreation, r = None)"
| "phase_of (RunStageCall c SetupStage r) = Some (BaseSetup, r = None)"
| "phase_of (RunStageCall c DockerStage r) = Some (DockerSetup, r = None)"
| "phase_of (RunStageCall c (GetTraefikStage e) r) = Some (TraefikSetup, r = None)"
| "phase_of (RunCommandCall c l r) = Some (KeyGeneration, r = None)"
| "phase_of (WriteConfigCall r) = Some (Persistence, r = None)"
| "phase_of _ = None"

fun phase_log :: "event list \<Rightarrow> (phase \<times> bool) list" where
  "phase_log [] = []"
| "phase_log (e # es) =
     (case phase_of e of None \<Rightarrow> phase_log es | Some p \<Rightarrow> p # phase_log es)"

definition all_phases :: "phase list" where
  "all_phases = [BootstrapLogin, AccountCreation, OperationalLogin, BaseSetup,
     KeyGeneration, DockerSetup, TraefikSetup, Persistence]"

text \<open>
  A log follows the given order of phases from its start, and nothing follows a phase
  that failed.
\<close>

fun in_order :: "phase list \<Rightarrow> (phase \<times> bool) list \<Rightarrow> bool" where
  "in_order ps [] = True"
| "in_order [] (x # xs) = False"
| "in_order (p # ps) ((q, ok) # xs) = (p = q \<and> (ok \<or> xs = []) \<and> in_order ps xs)"

definition run_log :: "world \<Rightarrow> (phase \<times> bool) list" where
  "run_log w = phase_log (trace (snd (sidekick_init w)))"

text \<open>The operational session exists once a login as \<open>sidekick\<close> has succeeded.\<close>

fun operational_established :: "event \<Rightarrow> bool" where
  "operational_established (LoginCall h u r) = (u = ''sidekick'' \<and> r = None)"
| "operational_established _ = False"

fun after_operational :: "event list \<Rightarrow> event list" where
  "after_operational [] = []"
| "after_operational (e # es) =
     (if operational_established e then es else after_operational es)"

text \<open>An event that uses a session of the \<open>root\<close> account, or opens one.\<close>

fun on_bootstrap :: "event \<Rightarrow> bool" where
  "on_bootstrap (RunStageCall c st r) = (client_user c = ''root'')"
| "on_bootstrap (RunCommandCall c l r) = (client_user c = ''root'')"
| "on_bootstrap (LoginCall h u r) = (u = ''root'')"
| "on_bootstrap _ = False"

text \<open>An event that reaches the remote host.\<close>

fun remote_event :: "event \<Rightarrow> bool" where
  "remote_event (LoginCall h u r) = True"
| "remote_event (RunStageCall c st r) = True"
| "remote_event (RunCommandCall c l r) = True"
| "remote_event _ = False"

text \<open>An event of the local machine only: a prompt, a message, a file-system call.\<close>

fun local_event :: "event \<Rightarrow> bool" where
  "local_event (TextInputShow m) = True"
| "local_event (ErrorPrint m) = True"
| "local_event (LogFatal m) = True"
| "local_event (CheckErr e) = True"
| "local_event (MkdirAllCall p r) = True"
| "local_event (CreateCall p r) = True"
| "local_event _ = False"

text \<open>The host that an event reaches.\<close>

fun event_host :: "event \<Rightarrow> string option" where
  "event_host (LoginCall h u r) = Some h"
| "event_host (RunStageCall (SshClient h u) st r) = Some h"
| "event_host (RunCommandCall (SshClient h u) l r) = Some h"
| "event_host _ = None"

fun ready_message :: "event \<Rightarrow> bool" where
  "ready_message (InfoPrint m) = True"
| "ready_message _ = False"

subsection \<open>Conditions on the world\<close>

text \<open>\<open>initConfig\<close> goes through: the home directory is known, the directory and the file
  can be created.\<close>

definition config_initialised :: "world \<Rightarrow> bool" where
  "config_initialised w =
     (case UserHomeDir w of
        Inl err \<Rightarrow> False
      | Inr home \<Rightarrow>
          MkdirAll w (home @ ''/.config/sidekick'') = None \<and>
          Create w (home @ ''/.config/sidekick'' @ ''/default.yaml'') = None)"

text \<open>What viper holds for a key when the command starts.\<close>

definition pre_supplied :: "world \<Rightarrow> string \<Rightarrow> string" where
  "pre_supplied w k = viper_GetString (initial w) k"

text \<open>The address and the email the run goes on with, when it goes on.\<close>

definition server_of :: "world \<Rightarrow> string" where
  "server_of w =
     (if pre_supplied w ''serverAddress'' = [] then serverInput w
      else pre_supplied w ''serverAddress'')"

definition certEmail_of :: "world \<Rightarrow> string" where
  "certEmail_of w =
     (if pre_supplied w ''certEmail'' = [] then certEmailInput w
      else pre_supplied w ''certEmail'')"

text \<open>What the operator types, where the command asks, passes the command's checks.\<close>

definition inputs_accepted :: "world \<Rightarrow> bool" where
  "inputs_accepted w =
     ((pre_supplied w ''serverAddress'' = [] \<longrightarrow> utils_IsValidIPAddress w (serverInput w)) \<and>
      (pre_supplied w ''certEmail'' = [] \<longrightarrow> certEmailInput w \<noteq> []))"

text \<open>
  Both logins, the account creation and the setup stage succeed, and the
  key-generation command delivers \<open>output\<close>.
\<close>

definition reaches_keygen :: "world \<Rightarrow> string \<Rightarrow> bool" where
  "reaches_keygen w output =
     (config_initialised w \<and> inputs_accepted w \<and>
      utils_Login w (server_of w) ''root'' = None \<and>
      utils_RunStage w (SshClient (server_of w) ''root'') UsersetupStage = None \<and>
      utils_Login w (server_of w) ''sidekick'' = None \<and>
      utils_RunStage w (SshClient (server_of w) ''sidekick'') SetupStage = None \<and>
      utils_RunCommand w (SshClient (server_of w) ''sidekick'') keygenCommand = Inr output)"

text \<open>The Docker and Traefik stages succeed.\<close>

definition later_stages_succeed :: "world \<Rightarrow> bool" where
  "later_stages_succeed w =
     (utils_RunStage w (SshClient (server_of w) ''sidekick'') DockerStage = None \<and>
      utils_RunStage w (SshClient (server_of w) ''sidekick'')
        (GetTraefikStage (certEmail_of w)) = None)"

text \<open>\<open>strings.Contains(s, sub)\<close>: \<open>sub\<close> starts at some position of \<open>s\<close>.\<close>

definition Contains :: "string \<Rightarrow> string \<Rightarrow> bool" where
  "Contains s sub = list_ex (\<lambda>i. HasPrefix (drop i s) sub) [0..<Suc (length s)]"

text \<open>The value a configuration file holds for a key is there and not empty.\<close>

definition holds_nonempty :: "(string \<rightharpoonup> string) option \<Rightarrow> string \<Rightarrow> bool" where
  "holds_nonempty d k =
     (case d of None \<Rightarrow> False
      | Some m \<Rightarrow> (case m k of None \<Rightarrow> False | Some v \<Rightarrow> v \<noteq> []))"

subsection \<open>Sample worlds\<close>

text \<open>
  Modelled from the spec: \<open>utils.IsValidIPAddress\<close> is not in this file; the spec asks
  for a syntactically valid IPv4 address, accepting \<open>192.168.1.1\<close> and rejecting
  \<open>999.1.1.1\<close>, \<open>localhost\<close> and the empty string. Here: four pieces between dots, each
  one to three decimal digits with a value of at most 255. Only the sample worlds
  below use it; the theorems hold for any validator.
\<close>

definition isDigit :: "char \<Rightarrow> bool" where
  "isDigit c = (c \<in> set ''0123456789'')"

definition decimal :: "string \<Rightarrow> nat" where
  "decimal ds = foldl (\<lambda>n c. 10 * n + (of_char c - 48)) 0 ds"

definition isOctet :: "string \<Rightarrow> bool" where
  "isOctet ds = (ds \<noteq> [] \<and> length ds \<le> 3 \<and> list_all isDigit ds \<and> decimal ds \<le> 255)"

definition IsValidIPv4 :: "string \<Rightarrow> bool" where
  "IsValidIPv4 s = (length (Split s CHR ''.'') = 4 \<and> list_all isOctet (Split s CHR ''.''))"

text \<open>
  Nothing is pre-supplied, the operator types a valid address and an email, every
  remote call succeeds, the key generation prints a key, and the file can be written.
\<close>

definition world_ok :: world where
  "world_ok =
     \<lparr>stored = Map.empty,
      disk0 = None,
      serverInput = ''192.168.1.1'',
      certEmailInput = ''ops@example.com'',
      utils_IsValidIPAddress = IsValidIPv4,
      utils_Login = (\<lambda>server user. None),
      utils_RunStage = (\<lambda>client st. None),
      utils_RunCommand = (\<lambda>client line. Inr ''Public key: AGE1ABCXYZ more text''),
      WriteConfig = None,
      UserHomeDir = Inr ''/home/op'',
      MkdirAll = (\<lambda>path. None),
      Create = (\<lambda>path. None)\<rparr>"

text \<open>The key generation prints something else.\<close>

definition world_no_marker :: world where
  "world_no_marker =
     world_ok\<lparr>utils_RunCommand := (\<lambda>client line. Inr ''age-keygen: command not found'')\<rparr>"

text \<open>The operator types a host name, or no email.\<close>

definition world_bad_address :: world where
  "world_bad_address = world_ok\<lparr>serverInput := ''localhost''\<rparr>"

definition world_no_email :: world where
  "world_no_email = world_ok\<lparr>certEmailInput := []\<rparr>"

text \<open>The host name comes with the flag \<open>--server\<close> instead.\<close>

definition world_flag_localhost :: world where
  "world_flag_localhost = world_ok\<lparr>stored := [''serverAddress'' \<mapsto> ''localhost'']\<rparr>"

text \<open>A configuration file exists, and the login as \<open>sidekick\<close> is refused.\<close>

definition world_login_refused :: world where
  "world_login_refused =
     world_ok\<lparr>disk0 := Some [''serverAddress'' \<mapsto> ''192.168.1.1''],
       utils_Login := (\<lambda>server user.
         if user = ''sidekick'' then Some (GoError ''handshake failed'') else None)\<rparr>"

text \<open>The key generation prints the marker and two spaces before the key.\<close>

definition world_two_spaces :: world where
  "world_two_spaces =
     world_ok\<lparr>utils_RunCommand := (\<lambda>client line. Inr ''Public key:  AGE1ABCXYZ'')\<rparr>"

text \<open>The key generation prints the marker and nothing else.\<close>

definition world_marker_only :: world where
  "world_marker_only = world_ok\<lparr>utils_RunCommand := (\<lambda>client line. Inr ''Public key'')\<rparr>"

text \<open>The configuration file cannot be written.\<close>

definition world_write_fails :: world where
  "world_write_fails = world_ok\<lparr>WriteConfig := Some (GoError ''permission denied'')\<rparr>"

text \<open>The Docker stage fails.\<close>

definition world_docker_fails :: world where
  "world_docker_fails =
     world_ok\<lparr>utils_RunStage := (\<lambda>client st.
       if st = DockerStage then Some (GoError ''exit status 1'') else None)\<rparr>"

section \<open>Lemmas on the model\<close>

subsection \<open>The state and the log\<close>

lemma trace_emit [simp]: "trace (emit es s) = trace s @ es"
  and settings_emit [simp]: "settings (emit es s) = settings s"
  and disk_emit [simp]: "disk (emit es s) = disk s"
  by (simp_all add: emit_def)

lemma trace_viper_Set [simp]: "trace (viper_Set k v s) = trace s"
  and settings_viper_Set [simp]: "settings (viper_Set k v s) = (settings s)(k \<mapsto> v)"
  and disk_viper_Set [simp]: "disk (viper_Set k v s) = disk s"
  by (simp_all add: viper_Set_def)

lemma phase_log_append [simp]: "phase_log (xs @ ys) = phase_log xs @ phase_log ys"
  by (induction xs) (simp_all split: option.split)

lemma phase_log_local: "list_all local_event xs \<Longrightarrow> phase_log xs = []"
proof (induction xs)
  case Nil
  then show ?case by simp
next
  case (Cons e es)
  then show ?case by (cases e) simp_all
qed

lemma after_operational_local:
  "list_all local_event xs \<Longrightarrow> after_operational (xs @ ys) = after_operational ys"
proof (induction xs)
  case Nil
  then show ?case by simp
next
  case (Cons e es)
  then show ?case by (cases e) simp_all
qed

lemma local_event_only:
  assumes "local_event e"
  shows "phase_of e = None" and "\<not> ready_message e" and "\<not> remote_event e"
    and "event_host e = None" and "\<not> on_bootstrap e" and "\<not> operational_established e"
  using assms by (cases e; simp)+

lemma local_events_quiet:
  assumes "list_all local_event xs"
  shows "\<not> list_ex ready_message xs" and "list_all (\<lambda>e. \<not> remote_event e) xs"
    and "\<forall>e \<in> set xs. event_host e = None"
  using assms by (auto simp: list_all_iff list_ex_iff local_event_only)

lemma extractPublicKey_trace: "extractPublicKey out s = Inr s' \<Longrightarrow> trace s' = trace s"
  by (auto simp: extractPublicKey_def split: if_splits sum.splits)

lemma extractPublicKey_disk: "extractPublicKey out s = Inr s' \<Longrightarrow> disk s' = disk s"
  by (auto simp: extractPublicKey_def split: if_splits sum.splits)

lemma emit_Nil [simp]: "emit [] s = s"
  by (simp add: emit_def)

lemma emit_emit [simp]: "emit es (emit es' s) = emit (es' @ es) s"
  by (simp add: emit_def)

subsection \<open>From the invocation to the remote part\<close>

lemma initConfig_ok:
  assumes "config_initialised w"
  shows "\<exists>es. initConfig w s = (None, emit es (s\<lparr>disk := Some Map.empty\<rparr>)) \<and>
    list_all local_event es"
  using assms
  by (auto simp: config_initialised_def initConfig_def Let_def split: sum.splits option.splits)

lemma initConfig_failed:
  assumes "\<not> config_initialised w"
  shows "\<exists>es. initConfig w s = (Some (Exit 1), emit es s) \<and> list_all local_event es"
  using assms
  by (auto simp: config_initialised_def initConfig_def Let_def split: sum.splits option.splits)

lemma askServer_accepted:
  assumes "server = [] \<longrightarrow> utils_IsValidIPAddress w (serverInput w)"
  shows "\<exists>es. askServer w server s =
      Inr (if server = [] then serverInput w else server, emit es s) \<and>
    list_all local_event es"
proof (cases "server = []")
  case True
  with assms show ?thesis
    by (intro exI [of _ "[TextInputShow ''Please enter the IPv4 Address of your VPS'']"])
      (simp add: askServer_def Let_def)
next
  case False
  then show ?thesis
    by (intro exI [of _ "[]"]) (simp add: askServer_def)
qed

lemma askServer_refused:
  assumes "server = []" and "\<not> utils_IsValidIPAddress w (serverInput w)"
  shows "\<exists>es. askServer w server s = Inl (emit es s) \<and> list_all local_event es"
  using assms
  by (intro exI [of _ "[TextInputShow ''Please enter the IPv4 Address of your VPS'',
        ErrorPrint (''You entered an incorrect IP Address - '' @ serverInput w)]"])
    (simp add: askServer_def Let_def)

lemma askCertEmail_accepted:
  assumes "certEmail = [] \<longrightarrow> certEmailInput w \<noteq> []"
  shows "\<exists>es. askCertEmail w certEmail s =
      Inr (if certEmail = [] then certEmailInput w else certEmail, emit es s) \<and>
    list_all local_event es"
proof (cases "certEmail = []")
  case True
  with assms show ?thesis
    by (intro exI [of _ "[TextInputShow ''Please enter an email for use with TLS certs'']"])
      (simp add: askCertEmail_def Let_def)
next
  case False
  then show ?thesis
    by (intro exI [of _ "[]"]) (simp add: askCertEmail_def)
qed

lemma askCertEmail_refused:
  assumes "certEmail = []" and "certEmailInput w = []"
  shows "\<exists>es. askCertEmail w certEmail s = Inl (emit es s) \<and> list_all local_event es"
  using assms
  by (intro exI [of _ "[TextInputShow ''Please enter an email for use with TLS certs'',
        ErrorPrint ''An email is needed before you proceed'']"])
    (simp add: askCertEmail_def Let_def)

lemma Run_accepted:
  assumes "inputs_accepted w"
    and "viper_GetString s ''serverAddress'' = pre_supplied w ''serverAddress''"
    and "viper_GetString s ''certEmail'' = pre_supplied w ''certEmail''"
  shows "\<exists>es. Run w s = provision w (server_of w) (certEmail_of w)
        (viper_Set ''certEmail'' (certEmail_of w)
          (viper_Set ''serverAddress'' (server_of w) (emit es s))) \<and>
    list_all local_event es"
proof -
  from assms(1) obtain es1 where 1: "askServer w (pre_supplied w ''serverAddress'') s =
      Inr (server_of w, emit es1 s)" and l1: "list_all local_event es1"
    using askServer_accepted [of "pre_supplied w ''serverAddress''" w s]
    by (auto simp: inputs_accepted_def server_of_def)
  from assms(1) obtain es2 where
    2: "askCertEmail w (pre_supplied w ''certEmail'') (emit es1 s) =
      Inr (certEmail_of w, emit es2 (emit es1 s))" and l2: "list_all local_event es2"
    using askCertEmail_accepted [of "pre_supplied w ''certEmail''" w "emit es1 s"]
    by (auto simp: inputs_accepted_def certEmail_of_def)
  show ?thesis
    using l1 l2
    by (intro exI [of _ "es1 @ es2"]) (simp add: Run_def assms(2,3) 1 2)
qed

lemma Run_refused:
  assumes "\<not> inputs_accepted w"
    and "viper_GetString s ''serverAddress'' = pre_supplied w ''serverAddress''"
    and "viper_GetString s ''certEmail'' = pre_supplied w ''certEmail''"
  shows "\<exists>es. Run w s = (Exit 0, emit es s) \<and> list_all local_event es"
proof (cases "pre_supplied w ''serverAddress'' = [] \<and> \<not> utils_IsValidIPAddress w (serverInput w)")
  case True
  then obtain es where "askServer w (pre_supplied w ''serverAddress'') s = Inl (emit es s)"
    and "list_all local_event es"
    using askServer_refused [of "pre_supplied w ''serverAddress''" w s] by blast
  then show ?thesis
    by (intro exI [of _ es]) (simp add: Run_def assms(2,3))
next
  case False
  then obtain es1 where 1: "askServer w (pre_supplied w ''serverAddress'') s =
      Inr (server_of w, emit es1 s)" and l1: "list_all local_event es1"
    using askServer_accepted [of "pre_supplied w ''serverAddress''" w s]
    by (auto simp: server_of_def)
  from False assms(1) have "pre_supplied w ''certEmail'' = []" "certEmailInput w = []"
    by (auto simp: inputs_accepted_def)
  then obtain es2 where
    2: "askCertEmail w (pre_supplied w ''certEmail'') (emit es1 s) = Inl (emit es2 (emit es1 s))"
    and l2: "list_all local_event es2"
    using askCertEmail_refused [of "pre_supplied w ''certEmail''" w "emit es1 s"] by blast
  show ?thesis
    using l1 l2
    by (intro exI [of _ "es1 @ es2"]) (simp add: Run_def assms(2,3) 1 2)
qed

text \<open>
  An invocation ends in \<open>initConfig\<close>, or at a refused input, or goes on to the remote
  part with the chosen address and email; up to there only local events are logged.
\<close>

lemma sidekick_init_cases:
  obtains (init_failed) s where "sidekick_init w = (Exit 1, s)"
      and "list_all local_event (trace s)" and "disk s = disk0 w"
      and "\<not> config_initialised w"
    | (input_refused) s where "sidekick_init w = (Exit 0, s)"
      and "list_all local_event (trace s)" and "disk s = Some Map.empty"
      and "config_initialised w" and "\<not> inputs_accepted w"
    | (provisioning) s where
        "sidekick_init w = provision w (server_of w) (certEmail_of w) s"
      and "list_all local_event (trace s)" and "disk s = Some Map.empty"
      and "settings s = (stored w)(''serverAddress'' \<mapsto> server_of w,
             ''certEmail'' \<mapsto> certEmail_of w)"
      and "config_initialised w" and "inputs_accepted w"
proof (cases "config_initialised w")
  case False
  obtain es where "initConfig w (initial w) = (Some (Exit 1), emit es (initial w))"
    and "list_all local_event es"
    using initConfig_failed [OF False] by blast
  then show ?thesis
    using False by (intro init_failed [of "emit es (initial w)"])
      (simp_all add: sidekick_init_def initial_def)
next
  case True
  obtain es where init: "initConfig w (initial w) =
      (None, emit es ((initial w)\<lparr>disk := Some Map.empty\<rparr>))"
    and es: "list_all local_event es"
    using initConfig_ok [OF True] by blast
  define s0 where "s0 = emit es ((initial w)\<lparr>disk := Some Map.empty\<rparr>)"
  have s0: "settings s0 = stored w" "disk s0 = Some Map.empty" "trace s0 = es"
    by (simp_all add: s0_def initial_def)
  have run: "sidekick_init w = Run w s0"
    by (simp add: sidekick_init_def init s0_def)
  have get: "viper_GetString s0 k = pre_supplied w k" for k
    by (simp add: viper_GetString_def pre_supplied_def s0 initial_def)
  show ?thesis
  proof (cases "inputs_accepted w")
    case False
    obtain es' where "Run w s0 = (Exit 0, emit es' s0)" and "list_all local_event es'"
      using Run_refused [OF False get get] by blast
    then show ?thesis
      using True False es s0
      by (intro input_refused [of "emit es' s0"]) (simp_all add: run)
  next
    case acc: True
    obtain es' where "Run w s0 = provision w (server_of w) (certEmail_of w)
        (viper_Set ''certEmail'' (certEmail_of w)
          (viper_Set ''serverAddress'' (server_of w) (emit es' s0)))"
      and "list_all local_event es'"
      using Run_accepted [OF acc get get] by blast
    then show ?thesis
      using True acc es s0
      by (intro provisioning [of "viper_Set ''certEmail'' (certEmail_of w)
          (viper_Set ''serverAddress'' (server_of w) (emit es' s0))"]) (simp_all add: run)
  qed
qed

subsection \<open>The key extraction, by cases on the output\<close>

lemma extractPublicKey_no_marker:
  "\<not> HasPrefix out ''Public key'' \<Longrightarrow> extractPublicKey out s = Inr s"
  by (simp add: extractPublicKey_def)

lemma extractPublicKey_third:
  "HasPrefix out ''Public key'' \<Longrightarrow> 3 \<le> length (Split out CHR '' '') \<Longrightarrow>
   extractPublicKey out s = Inr (viper_Set ''publicKey'' (Split out CHR '' '' ! 2) s)"
  by (simp add: extractPublicKey_def slice_2_3_def hd_drop_conv_nth take_Suc)

lemma extractPublicKey_short:
  "HasPrefix out ''Public key'' \<Longrightarrow> length (Split out CHR '' '') < 3 \<Longrightarrow>
   extractPublicKey out s = Inl (SliceBoundsOutOfRange 3 (length (Split out CHR '' '')))"
  by (simp add: extractPublicKey_def slice_2_3_def)

subsection \<open>The order of the phases\<close>

lemma in_order_succeeded:
  "in_order ps L \<Longrightarrow> i < j \<Longrightarrow> j < length L \<Longrightarrow> snd (L ! i)"
proof (induction ps L arbitrary: i j rule: in_order.induct)
  case (1 ps)
  then show ?case by simp
next
  case (2 x xs)
  then show ?case by simp
next
  case (3 p ps q ok xs)
  show ?case
  proof (cases i)
    case 0
    with 3 show ?thesis by auto
  next
    case (Suc i')
    with 3 show ?thesis by (cases j) auto
  qed
qed

lemma in_order_prefix: "in_order ps L \<Longrightarrow> map fst L = take (length L) ps"
  by (induction ps L rule: in_order.induct) auto

lemma in_order_predecessor:
  "in_order ps L \<Longrightarrow> (q, b) \<in> set L \<Longrightarrow> p \<in> set (takeWhile (\<lambda>x. x \<noteq> q) ps) \<Longrightarrow>
   (p, True) \<in> set L"
proof (induction ps L rule: in_order.induct)
  case (1 ps)
  then show ?case by simp
next
  case (2 x xs)
  then show ?case by simp
next
  case (3 p' ps q' ok xs)
  show ?case
  proof (cases "p' = q")
    case True
    with 3 show ?thesis by simp
  next
    case False
    with 3 have "(q, b) \<in> set xs" by auto
    with 3 False show ?thesis by (cases "p = p'") auto
  qed
qed

lemma provision_in_order:
  assumes "phase_log (trace s) = []"
  shows "in_order all_phases (phase_log (trace (snd (provision w server certEmail s))))"
  using assms
  by (simp add: provision_def viper_WriteConfig_def all_phases_def extractPublicKey_trace Let_def
      split: sum.split option.split prod.split)

lemma run_log_in_order: "in_order all_phases (run_log w)"
proof (cases w rule: sidekick_init_cases)
  case (init_failed s)
  then show ?thesis by (simp add: run_log_def phase_log_local)
next
  case (input_refused s)
  then show ?thesis by (simp add: run_log_def phase_log_local)
next
  case (provisioning s)
  then show ?thesis by (simp add: run_log_def phase_log_local provision_in_order)
qed

subsection \<open>After the operational login\<close>

lemma after_operational_all_local:
  "list_all local_event xs \<Longrightarrow> after_operational xs = []"
  using after_operational_local [of xs "[]"] by simp

lemma provision_after_operational:
  assumes "list_all local_event (trace s)"
  shows "list_all (\<lambda>e. \<not> on_bootstrap e)
    (after_operational (trace (snd (provision w server certEmail s))))"
  using assms
  by (simp add: provision_def viper_WriteConfig_def extractPublicKey_trace Let_def
      after_operational_local
      split: sum.split option.split prod.split)

subsection \<open>The sample worlds\<close>

lemma IsValidIPv4_sample: "IsValidIPv4 ''192.168.1.1''"
  by (simp add: IsValidIPv4_def isOctet_def isDigit_def decimal_def)

lemma IsValidIPv4_rejects:
  "\<not> IsValidIPv4 ''localhost''" "\<not> IsValidIPv4 ''999.1.1.1''" "\<not> IsValidIPv4 []"
  by (simp_all add: IsValidIPv4_def isOctet_def isDigit_def decimal_def)

lemmas condition_defs =
  pre_supplied_def server_of_def certEmail_of_def config_initialised_def
  inputs_accepted_def viper_GetString_def initial_def

lemma provisioning_run:
  assumes "config_initialised w" and "inputs_accepted w"
  obtains s where "sidekick_init w = provision w (server_of w) (certEmail_of w) s"
    and "list_all local_event (trace s)" and "disk s = Some Map.empty"
    and "settings s = (stored w)(''serverAddress'' \<mapsto> server_of w,
           ''certEmail'' \<mapsto> certEmail_of w)"
  using assms by (cases w rule: sidekick_init_cases) simp_all

lemma extractPublicKey_sample:
  "extractPublicKey ''Public key: AGE1ABCXYZ more text'' s =
     Inr (viper_Set ''publicKey'' ''AGE1ABCXYZ'' s)"
  by (simp add: extractPublicKey_def HasPrefix_def slice_2_3_def)

lemma world_ok_conditions:
  "config_initialised world_ok" "inputs_accepted world_ok"
  "server_of world_ok = ''192.168.1.1''" "certEmail_of world_ok = ''ops@example.com''"
  by (simp_all add: condition_defs world_ok_def IsValidIPv4_sample)

lemma world_ok_calls:
  "utils_Login world_ok = (\<lambda>server user. None)"
  "utils_RunStage world_ok = (\<lambda>client st. None)"
  "utils_RunCommand world_ok = (\<lambda>client line. Inr ''Public key: AGE1ABCXYZ more text'')"
  "WriteConfig world_ok = None"
  "stored world_ok = Map.empty"
  by (simp_all add: world_ok_def)

lemma world_ok_reaches_keygen:
  "reaches_keygen world_ok ''Public key: AGE1ABCXYZ more text''"
  by (simp add: reaches_keygen_def world_ok_conditions world_ok_calls)

lemma world_docker_fails_conditions:
  "config_initialised world_docker_fails" "inputs_accepted world_docker_fails"
  "server_of world_docker_fails = ''192.168.1.1''"
  "certEmail_of world_docker_fails = ''ops@example.com''"
  by (simp_all add: condition_defs world_docker_fails_def world_ok_def IsValidIPv4_sample)

lemma world_docker_fails_calls:
  "utils_Login world_docker_fails = (\<lambda>server user. None)"
  "utils_RunStage world_docker_fails =
     (\<lambda>client st. if st = DockerStage then Some (GoError ''exit status 1'') else None)"
  "utils_RunCommand world_docker_fails =
     (\<lambda>client line. Inr ''Public key: AGE1ABCXYZ more text'')"
  by (simp_all add: world_docker_fails_def world_ok_def)

lemma run_log_world_docker_fails:
  "run_log world_docker_fails =
     [(BootstrapLogin, True), (AccountCreation, True), (OperationalLogin, True),
      (BaseSetup, True), (KeyGeneration, True), (DockerSetup, False)]"
proof -
  obtain s where run: "sidekick_init world_docker_fails =
      provision world_docker_fails ''192.168.1.1'' ''ops@example.com'' s"
    and loc: "list_all local_event (trace s)"
    using provisioning_run [of world_docker_fails] world_docker_fails_conditions by metis
  show ?thesis
    unfolding run_log_def run
    by (simp add: phase_log_local loc provision_def Let_def world_docker_fails_calls
        extractPublicKey_sample)
qed

lemma after_operational_world_ok:
  "after_operational (trace (snd (sidekick_init world_ok))) =
     [SpinnerSuccess sidekickLoginSpinner,
      RunStageCall (SshClient ''192.168.1.1'' ''sidekick'') SetupStage None,
      RunCommandCall (SshClient ''192.168.1.1'' ''sidekick'') keygenCommand None,
      SpinnerSuccess stage1Spinner,
      RunStageCall (SshClient ''192.168.1.1'' ''sidekick'') DockerStage None,
      SpinnerSuccess stage2Spinner,
      RunStageCall (SshClient ''192.168.1.1'' ''sidekick'')
        (GetTraefikStage ''ops@example.com'') None,
      SpinnerSuccess stage3Spinner, WriteConfigCall None,
      InfoPrint ''Your VPS is ready! You can now run Sidekick launch in your app folder'']"
proof -
  obtain s where run: "sidekick_init world_ok =
      provision world_ok ''192.168.1.1'' ''ops@example.com'' s"
    and loc: "list_all local_event (trace s)"
    using provisioning_run [of world_ok] world_ok_conditions by metis
  show ?thesis
    unfolding run
    by (simp add: after_operational_local loc provision_def Let_def viper_WriteConfig_def
        world_ok_calls extractPublicKey_sample)
qed

subsection \<open>Runs that reach the key generation\<close>

lemma server_of_nonempty:
  assumes "inputs_accepted w" and "\<not> utils_IsValidIPAddress w []"
  shows "server_of w \<noteq> []"
  using assms by (auto simp: inputs_accepted_def server_of_def)

lemma certEmail_of_nonempty:
  assumes "inputs_accepted w"
  shows "certEmail_of w \<noteq> []"
  using assms by (auto simp: inputs_accepted_def certEmail_of_def)

lemma completed_run_no_marker:
  assumes "reaches_keygen w out" and "\<not> HasPrefix out ''Public key''"
  shows "SpinnerSuccess stage1Spinner \<in> set (trace (snd (sidekick_init w)))"
    and "(DockerSetup, utils_RunStage w (SshClient (server_of w) ''sidekick'') DockerStage = None)
      \<in> set (run_log w)"
    and "settings (snd (sidekick_init w)) ''publicKey'' = stored w ''publicKey''"
    and "later_stages_succeed w \<Longrightarrow> WriteConfig w = None \<Longrightarrow>
      fst (sidekick_init w) = Returned \<and>
      disk (snd (sidekick_init w)) =
        Some ((stored w)(''serverAddress'' \<mapsto> server_of w, ''certEmail'' \<mapsto> certEmail_of w))"
proof -
  obtain s where run: "sidekick_init w = provision w (server_of w) (certEmail_of w) s"
    and s: "settings s = (stored w)(''serverAddress'' \<mapsto> server_of w,
           ''certEmail'' \<mapsto> certEmail_of w)"
    using provisioning_run [of w] assms(1) by (auto simp: reaches_keygen_def)
  show "SpinnerSuccess stage1Spinner \<in> set (trace (snd (sidekick_init w)))"
    using assms unfolding run
    by (simp add: reaches_keygen_def provision_def Let_def viper_WriteConfig_def
        extractPublicKey_no_marker split: option.split)
  show "(DockerSetup, utils_RunStage w (SshClient (server_of w) ''sidekick'') DockerStage = None)
      \<in> set (run_log w)"
    using assms unfolding run run_log_def
    by (simp add: reaches_keygen_def provision_def Let_def viper_WriteConfig_def
        extractPublicKey_no_marker split: option.split)
  show "settings (snd (sidekick_init w)) ''publicKey'' = stored w ''publicKey''"
    using assms s unfolding run
    by (simp add: reaches_keygen_def provision_def Let_def viper_WriteConfig_def
        extractPublicKey_no_marker split: option.split)
  show "fst (sidekick_init w) = Returned \<and>
      disk (snd (sidekick_init w)) =
        Some ((stored w)(''serverAddress'' \<mapsto> server_of w, ''certEmail'' \<mapsto> certEmail_of w))"
    if "later_stages_succeed w" "WriteConfig w = None"
    using assms s that unfolding run
    by (simp add: reaches_keygen_def later_stages_succeed_def provision_def Let_def
        viper_WriteConfig_def extractPublicKey_no_marker)
qed

lemma completed_run_third:
  assumes "reaches_keygen w out" and "later_stages_succeed w" and "WriteConfig w = None"
    and "HasPrefix out ''Public key''" and "3 \<le> length (Split out CHR '' '')"
  shows "fst (sidekick_init w) = Returned"
    and "disk (snd (sidekick_init w)) =
      Some ((stored w)(''serverAddress'' \<mapsto> server_of w, ''certEmail'' \<mapsto> certEmail_of w,
        ''publicKey'' \<mapsto> Split out CHR '' '' ! 2))"
proof -
  obtain s where run: "sidekick_init w = provision w (server_of w) (certEmail_of w) s"
    and s: "settings s = (stored w)(''serverAddress'' \<mapsto> server_of w,
           ''certEmail'' \<mapsto> certEmail_of w)"
    using provisioning_run [of w] assms(1) by (auto simp: reaches_keygen_def)
  show "fst (sidekick_init w) = Returned"
    using assms unfolding run
    by (simp add: reaches_keygen_def later_stages_succeed_def provision_def Let_def
        viper_WriteConfig_def extractPublicKey_third)
  show "disk (snd (sidekick_init w)) =
      Some ((stored w)(''serverAddress'' \<mapsto> server_of w, ''certEmail'' \<mapsto> certEmail_of w,
        ''publicKey'' \<mapsto> Split out CHR '' '' ! 2))"
    using assms s unfolding run
    by (simp add: reaches_keygen_def later_stages_succeed_def provision_def Let_def
        viper_WriteConfig_def extractPublicKey_third)
qed

lemma panicking_run_short:
  assumes "reaches_keygen w out" and "HasPrefix out ''Public key''"
    and "length (Split out CHR '' '') < 3"
  shows "fst (sidekick_init w) = Panic (SliceBoundsOutOfRange 3 (length (Split out CHR '' '')))"
proof -
  obtain s where run: "sidekick_init w = provision w (server_of w) (certEmail_of w) s"
    using provisioning_run [of w] assms(1) by (auto simp: reaches_keygen_def)
  show ?thesis
    using assms unfolding run
    by (simp add: reaches_keygen_def provision_def Let_def extractPublicKey_short)
qed

subsection \<open>More sample worlds\<close>

lemma world_no_marker_reaches_keygen:
  "reaches_keygen world_no_marker ''age-keygen: command not found''"
  "later_stages_succeed world_no_marker" "WriteConfig world_no_marker = None"
  "stored world_no_marker = Map.empty"
  "server_of world_no_marker = ''192.168.1.1''"
  "certEmail_of world_no_marker = ''ops@example.com''"
  "utils_RunStage world_no_marker = (\<lambda>client st. None)"
  by (simp_all add: reaches_keygen_def later_stages_succeed_def condition_defs
      world_no_marker_def world_ok_def IsValidIPv4_sample)

lemma no_marker_in_sample: "\<not> HasPrefix ''age-keygen: command not found'' ''Public key''"
  by (simp add: HasPrefix_def)

lemma world_two_spaces_reaches_keygen:
  "reaches_keygen world_two_spaces ''Public key:  AGE1ABCXYZ''"
  "later_stages_succeed world_two_spaces" "WriteConfig world_two_spaces = None"
  "stored world_two_spaces = Map.empty"
  "server_of world_two_spaces = ''192.168.1.1''"
  "certEmail_of world_two_spaces = ''ops@example.com''"
  by (simp_all add: reaches_keygen_def later_stages_succeed_def condition_defs
      world_two_spaces_def world_ok_def IsValidIPv4_sample)

lemma world_marker_only_reaches_keygen:
  "reaches_keygen world_marker_only ''Public key''"
  "later_stages_succeed world_marker_only" "WriteConfig world_marker_only = None"
  by (simp_all add: reaches_keygen_def later_stages_succeed_def condition_defs
      world_marker_only_def world_ok_def IsValidIPv4_sample)

subsection \<open>Runs that end before the remote part\<close>

lemma refused_run:
  assumes "config_initialised w" and "\<not> inputs_accepted w"
  shows "fst (sidekick_init w) = Exit 0"
    and "list_all local_event (trace (snd (sidekick_init w)))"
    and "disk (snd (sidekick_init w)) = Some Map.empty"
  using assms by (cases w rule: sidekick_init_cases; simp)+

lemma uninitialised_run:
  assumes "\<not> config_initialised w"
  shows "fst (sidekick_init w) = Exit 1"
    and "list_all local_event (trace (snd (sidekick_init w)))"
    and "disk (snd (sidekick_init w)) = disk0 w"
  using assms by (cases w rule: sidekick_init_cases; simp)+

lemma provision_exit_status:
  "exit_status (fst (provision w server certEmail s)) = 0 \<longleftrightarrow>
   fst (provision w server certEmail s) = Returned"
  by (simp add: provision_def Let_def viper_WriteConfig_def
      split: sum.split option.split prod.split)

lemma provision_returned:
  assumes "phase_log (trace s) = []"
  shows "fst (provision w server certEmail s) = Returned \<longleftrightarrow>
    phase_log (trace (snd (provision w server certEmail s))) = map (\<lambda>p. (p, True)) all_phases"
  using assms
  by (simp add: provision_def Let_def viper_WriteConfig_def all_phases_def
      extractPublicKey_trace split: sum.split option.split prod.split)

text \<open>
  The process ends with status 0 exactly when an input was refused or every phase
  succeeded.
\<close>

lemma exit_status_zero_iff:
  "exit_status (fst (sidekick_init w)) = 0 \<longleftrightarrow>
     (config_initialised w \<and> \<not> inputs_accepted w) \<or>
     run_log w = map (\<lambda>p. (p, True)) all_phases"
proof (cases w rule: sidekick_init_cases)
  case (init_failed s)
  then show ?thesis by (simp add: run_log_def phase_log_local all_phases_def)
next
  case (input_refused s)
  then show ?thesis by simp
next
  case (provisioning s)
  then show ?thesis
    using provision_returned [of s w "server_of w" "certEmail_of w"]
    by (simp add: run_log_def phase_log_local provision_exit_status)
qed

subsection \<open>The host of the remote calls\<close>

lemma provision_hosts:
  assumes "list_all local_event (trace s)"
  shows "\<forall>e \<in> set (trace (snd (provision w server certEmail s))).
    \<forall>h. event_host e = Some h \<longrightarrow> h = server"
  using local_events_quiet(3) [OF assms]
  by (simp add: provision_def Let_def viper_WriteConfig_def extractPublicKey_trace ball_Un
      split: sum.split option.split prod.split)

lemma run_hosts:
  "\<forall>e \<in> set (trace (snd (sidekick_init w))). \<forall>h. event_host e = Some h \<longrightarrow> h = server_of w"
proof (cases w rule: sidekick_init_cases)
  case (init_failed s)
  then show ?thesis using local_events_quiet(3) [of "trace s"] by simp
next
  case (input_refused s)
  then show ?thesis using local_events_quiet(3) [of "trace s"] by simp
next
  case (provisioning s)
  then show ?thesis using provision_hosts [of s w "server_of w" "certEmail_of w"] by simp
qed

lemma validator_not_consulted:
  assumes "pre_supplied w ''serverAddress'' \<noteq> []"
  shows "sidekick_init (w\<lparr>utils_IsValidIPAddress := v\<rparr>) = sidekick_init w"
proof -
  have 1: "initConfig (w\<lparr>utils_IsValidIPAddress := v\<rparr>) s = initConfig w s" for s
    by (simp add: initConfig_def Let_def split: sum.split option.split)
  have 2: "initial (w\<lparr>utils_IsValidIPAddress := v\<rparr>) = initial w"
    by (simp add: initial_def)
  have 3: "provision (w\<lparr>utils_IsValidIPAddress := v\<rparr>) server certEmail s =
      provision w server certEmail s" for server certEmail s
    by (simp add: provision_def viper_WriteConfig_def Let_def
        split: sum.split option.split prod.split)
  have 4: "askCertEmail (w\<lparr>utils_IsValidIPAddress := v\<rparr>) e s = askCertEmail w e s" for e s
    by (simp add: askCertEmail_def)
  have 5: "askServer (w\<lparr>utils_IsValidIPAddress := v\<rparr>) x s = askServer w x s"
    if "x \<noteq> []" for x s
    using that by (simp add: askServer_def)
  show ?thesis
  proof (cases "config_initialised w")
    case False
    then obtain es where "initConfig w (initial w) = (Some (Exit 1), emit es (initial w))"
      using initConfig_failed by blast
    then show ?thesis by (simp add: sidekick_init_def 1 2)
  next
    case True
    then obtain es where i: "initConfig w (initial w) =
        (None, emit es ((initial w)\<lparr>disk := Some Map.empty\<rparr>))"
      using initConfig_ok by blast
    have "viper_GetString (emit es ((initial w)\<lparr>disk := Some Map.empty\<rparr>)) ''serverAddress''
        \<noteq> []"
      using assms by (simp add: viper_GetString_def pre_supplied_def)
    then show ?thesis
      by (simp add: sidekick_init_def 1 2 i Run_def 3 4 5 split: sum.split prod.split)
  qed
qed

text \<open>
  The path that asks for the address: every remote call goes to the address the
  operator typed, which passed the validator, and a typed address that fails the
  validator ends the run without any remote call.
\<close>

lemma typed_address_validated:
  assumes "pre_supplied w ''serverAddress'' = []"
  shows "\<forall>e \<in> set (trace (snd (sidekick_init w))). \<forall>h. event_host e = Some h \<longrightarrow>
      h = serverInput w \<and> utils_IsValidIPAddress w h"
    and "\<not> utils_IsValidIPAddress w (serverInput w) \<Longrightarrow>
      list_all (\<lambda>e. \<not> remote_event e) (trace (snd (sidekick_init w))) \<and>
      fst (sidekick_init w) = (if config_initialised w then Exit 0 else Exit 1)"
proof -
  show "\<forall>e \<in> set (trace (snd (sidekick_init w))). \<forall>h. event_host e = Some h \<longrightarrow>
      h = serverInput w \<and> utils_IsValidIPAddress w h"
  proof (cases "config_initialised w \<and> inputs_accepted w")
    case True
    with assms have "utils_IsValidIPAddress w (serverInput w)" "server_of w = serverInput w"
      by (simp_all add: inputs_accepted_def server_of_def)
    then show ?thesis using run_hosts [of w] by auto
  next
    case False
    then have "list_all local_event (trace (snd (sidekick_init w)))"
      using refused_run(2) [of w] uninitialised_run(2) [of w] by blast
    then show ?thesis using local_events_quiet(3) by simp
  qed
  show "list_all (\<lambda>e. \<not> remote_event e) (trace (snd (sidekick_init w))) \<and>
      fst (sidekick_init w) = (if config_initialised w then Exit 0 else Exit 1)"
    if "\<not> utils_IsValidIPAddress w (serverInput w)"
  proof -
    from assms that have n: "\<not> inputs_accepted w" by (simp add: inputs_accepted_def)
    have "list_all local_event (trace (snd (sidekick_init w)))"
      using n refused_run(2) [of w] uninitialised_run(2) [of w] by blast
    then have "list_all (\<lambda>e. \<not> remote_event e) (trace (snd (sidekick_init w)))"
      by (rule local_events_quiet)
    moreover have "fst (sidekick_init w) = (if config_initialised w then Exit 0 else Exit 1)"
      using n refused_run(1) [of w] uninitialised_run(1) [of w] by simp
    ultimately show ?thesis by simp
  qed
qed

subsection \<open>The refused login as \<open>sidekick\<close>\<close>

lemma initConfig_disk:
  "config_initialised w \<Longrightarrow> disk (snd (initConfig w s)) = Some Map.empty"
  using initConfig_ok [of w s] by auto

lemma local_events_no_login:
  "list_all local_event xs \<Longrightarrow> LoginCall h u r \<notin> set xs"
  by (auto simp: list_all_iff)

lemma provision_login_refused_iff:
  assumes "list_all local_event (trace s)"
  shows "LoginCall h ''sidekick'' (Some err) \<in> set (trace (snd (provision w server certEmail s)))
    \<longleftrightarrow> h = server \<and> utils_Login w server ''root'' = None \<and>
      utils_RunStage w (SshClient server ''root'') UsersetupStage = None \<and>
      utils_Login w server ''sidekick'' = Some err"
proof -
  note n = local_events_no_login [OF assms, of h "''sidekick''" "Some err"]
  show ?thesis
  proof (cases "utils_Login w server ''root''")
    case (Some e)
    then show ?thesis using n by (simp add: provision_def)
  next
    case root: None
    show ?thesis
    proof (cases "utils_RunStage w (SshClient server ''root'') UsersetupStage")
      case (Some e)
      then show ?thesis using n root by (simp add: provision_def Let_def)
    next
      case created: None
      show ?thesis
      proof (cases "utils_Login w server ''sidekick''")
        case (Some e)
        then show ?thesis using n root created by (auto simp: provision_def Let_def)
      next
        case None
        then show ?thesis
          using n root created
          by (simp add: provision_def Let_def viper_WriteConfig_def extractPublicKey_trace
              split: sum.split option.split prod.split)
      qed
    qed
  qed
qed

lemma provision_login_refused:
  assumes "LoginCall h ''sidekick'' (Some err) \<in> set (trace (snd (provision w server certEmail s)))"
    and "list_all local_event (trace s)"
  shows "phase_log (trace (snd (provision w server certEmail s))) =
      [(BootstrapLogin, True), (AccountCreation, True), (OperationalLogin, False)]"
    and "fst (provision w server certEmail s) = Panic (PanicError err)"
    and "disk (snd (provision w server certEmail s)) = disk s"
proof -
  have c: "utils_Login w server ''root'' = None"
    "utils_RunStage w (SshClient server ''root'') UsersetupStage = None"
    "utils_Login w server ''sidekick'' = Some err"
    using assms provision_login_refused_iff [of s h err w server certEmail] by simp_all
  show "phase_log (trace (snd (provision w server certEmail s))) =
      [(BootstrapLogin, True), (AccountCreation, True), (OperationalLogin, False)]"
    by (simp add: provision_def Let_def c phase_log_local assms(2))
  show "fst (provision w server certEmail s) = Panic (PanicError err)"
    by (simp add: provision_def Let_def c)
  show "disk (snd (provision w server certEmail s)) = disk s"
    by (simp add: provision_def Let_def c)
qed

subsection \<open>Sample worlds with refused inputs and logins\<close>

lemma world_bad_address_conditions:
  "config_initialised world_bad_address" "\<not> inputs_accepted world_bad_address"
  "pre_supplied world_bad_address ''serverAddress'' = []"
  "serverInput world_bad_address = ''localhost''"
  "\<not> utils_IsValidIPAddress world_bad_address ''localhost''"
  by (simp_all add: condition_defs world_bad_address_def world_ok_def IsValidIPv4_rejects)

lemma world_no_email_conditions:
  "config_initialised world_no_email" "\<not> inputs_accepted world_no_email"
  "pre_supplied world_no_email ''certEmail'' = []"
  "certEmailInput world_no_email = []"
  by (simp_all add: condition_defs world_no_email_def world_ok_def IsValidIPv4_sample)

lemma world_flag_localhost_conditions:
  "config_initialised world_flag_localhost" "inputs_accepted world_flag_localhost"
  "pre_supplied world_flag_localhost ''serverAddress'' = ''localhost''"
  "server_of world_flag_localhost = ''localhost''"
  "certEmail_of world_flag_localhost = ''ops@example.com''"
  "\<not> utils_IsValidIPAddress world_flag_localhost ''localhost''"
  "utils_Login world_flag_localhost = (\<lambda>server user. None)"
  by (simp_all add: condition_defs world_flag_localhost_def world_ok_def IsValidIPv4_rejects)

lemma world_flag_localhost_login:
  "LoginCall ''localhost'' ''root'' None \<in> set (trace (snd (sidekick_init world_flag_localhost)))"
proof -
  obtain s where run: "sidekick_init world_flag_localhost =
      provision world_flag_localhost ''localhost'' ''ops@example.com'' s"
    using provisioning_run [of world_flag_localhost] world_flag_localhost_conditions by metis
  show ?thesis
    unfolding run
    by (simp add: provision_def Let_def viper_WriteConfig_def world_flag_localhost_conditions
        extractPublicKey_trace split: sum.split option.split prod.split)
qed

lemma world_login_refused_conditions:
  "config_initialised world_login_refused" "inputs_accepted world_login_refused"
  "server_of world_login_refused = ''192.168.1.1''"
  "certEmail_of world_login_refused = ''ops@example.com''"
  "disk0 world_login_refused = Some [''serverAddress'' \<mapsto> ''192.168.1.1'']"
  "utils_Login world_login_refused =
     (\<lambda>server user. if user = ''sidekick'' then Some (GoError ''handshake failed'') else None)"
  "utils_RunStage world_login_refused = (\<lambda>client st. None)"
  by (simp_all add: condition_defs world_login_refused_def world_ok_def IsValidIPv4_sample)

lemma world_login_refused_run:
  "LoginCall ''192.168.1.1'' ''sidekick'' (Some (GoError ''handshake failed''))
     \<in> set (trace (snd (sidekick_init world_login_refused)))"
  "(AccountCreation, True) \<in> set (run_log world_login_refused)"
  "disk (snd (sidekick_init world_login_refused)) = Some Map.empty"
proof -
  obtain s where run: "sidekick_init world_login_refused =
      provision world_login_refused ''192.168.1.1'' ''ops@example.com'' s"
    and loc: "list_all local_event (trace s)" and d: "disk s = Some Map.empty"
    using provisioning_run [of world_login_refused] world_login_refused_conditions by metis
  show "LoginCall ''192.168.1.1'' ''sidekick'' (Some (GoError ''handshake failed''))
     \<in> set (trace (snd (sidekick_init world_login_refused)))"
    unfolding run by (simp add: provision_def Let_def world_login_refused_conditions)
  show "(AccountCreation, True) \<in> set (run_log world_login_refused)"
    unfolding run run_log_def
    by (simp add: provision_def Let_def world_login_refused_conditions phase_log_local loc)
  show "disk (snd (sidekick_init world_login_refused)) = Some Map.empty"
    unfolding run by (simp add: provision_def Let_def world_login_refused_conditions d)
qed

section \<open>The claims\<close>

subsection \<open>The order of the phases\<close>

text \<open>
  C5. In every invocation the logins, the stages, the key generation and the write are
  called in the one fixed order, starting from the login as \<open>root\<close>, and the run halts at
  the first that fails: every call that is followed by another one succeeded. In
  particular the login as \<open>sidekick\<close> is only called after the account-creation stage
  succeeded, the Docker stage only after the setup stage succeeded, and the Traefik
  stage only after the Docker stage succeeded.
\<close>

theorem phases_in_order:
  "map fst (run_log w) = take (length (run_log w)) all_phases \<and>
   (\<forall>i j. i < j \<longrightarrow> j < length (run_log w) \<longrightarrow> snd (run_log w ! i)) \<and>
   ((\<exists>b. (OperationalLogin, b) \<in> set (run_log w)) \<longrightarrow>
      (AccountCreation, True) \<in> set (run_log w)) \<and>
   ((\<exists>b. (DockerSetup, b) \<in> set (run_log w)) \<longrightarrow> (BaseSetup, True) \<in> set (run_log w)) \<and>
   ((\<exists>b. (TraefikSetup, b) \<in> set (run_log w)) \<longrightarrow> (DockerSetup, True) \<in> set (run_log w))"
proof (intro conjI)
  show "map fst (run_log w) = take (length (run_log w)) all_phases"
    using run_log_in_order by (rule in_order_prefix)
  show "\<forall>i j. i < j \<longrightarrow> j < length (run_log w) \<longrightarrow> snd (run_log w ! i)"
    using in_order_succeeded [OF run_log_in_order] by blast
  show "(\<exists>b. (OperationalLogin, b) \<in> set (run_log w)) \<longrightarrow>
      (AccountCreation, True) \<in> set (run_log w)"
    using in_order_predecessor
      [OF run_log_in_order, where q = OperationalLogin and p = AccountCreation]
    by (auto simp: all_phases_def)
  show "(\<exists>b. (DockerSetup, b) \<in> set (run_log w)) \<longrightarrow> (BaseSetup, True) \<in> set (run_log w)"
    using in_order_predecessor [OF run_log_in_order, where q = DockerSetup and p = BaseSetup]
    by (auto simp: all_phases_def)
  show "(\<exists>b. (TraefikSetup, b) \<in> set (run_log w)) \<longrightarrow> (DockerSetup, True) \<in> set (run_log w)"
    using in_order_predecessor [OF run_log_in_order, where q = TraefikSetup and p = DockerSetup]
    by (auto simp: all_phases_def)
qed

text \<open>When the Docker stage fails, it is the sixth and last call, after five that succeeded.\<close>

theorem phases_in_order_witness:
  "run_log world_docker_fails =
     [(BootstrapLogin, True), (AccountCreation, True), (OperationalLogin, True),
      (BaseSetup, True), (KeyGeneration, True), (DockerSetup, False)] \<and>
   map fst (run_log world_docker_fails) = take 6 all_phases \<and>
   (DockerSetup, False) \<in> set (run_log world_docker_fails) \<and>
   (BaseSetup, True) \<in> set (run_log world_docker_fails) \<and>
   snd (run_log world_docker_fails ! 4)"
  using phases_in_order [of world_docker_fails] run_log_world_docker_fails
  by (simp add: all_phases_def)

subsection \<open>The bootstrap session\<close>

text \<open>
  C9. After the login as \<open>sidekick\<close> has succeeded, nothing uses a session of the \<open>root\<close>
  account any more: no stage and no command runs on one, and none is opened.
\<close>

theorem bootstrap_session_not_reused:
  "\<forall>e \<in> set (after_operational (trace (snd (sidekick_init w)))). \<not> on_bootstrap e"
proof (cases w rule: sidekick_init_cases)
  case (init_failed s)
  then show ?thesis by (simp add: after_operational_all_local)
next
  case (input_refused s)
  then show ?thesis by (simp add: after_operational_all_local)
next
  case (provisioning s)
  then show ?thesis
    using provision_after_operational [of s w "server_of w" "certEmail_of w"]
    by (simp add: list_all_iff)
qed

text \<open>In the run where everything succeeds, the Docker stage comes after the login as
  \<open>sidekick\<close> and runs on the \<open>sidekick\<close> session.\<close>

theorem bootstrap_session_not_reused_witness:
  "RunStageCall (SshClient ''192.168.1.1'' ''sidekick'') DockerStage None
     \<in> set (after_operational (trace (snd (sidekick_init world_ok)))) \<and>
   \<not> on_bootstrap (RunStageCall (SshClient ''192.168.1.1'' ''sidekick'') DockerStage None)"
  using bootstrap_session_not_reused [of world_ok] after_operational_world_ok by simp

subsection \<open>The key extraction\<close>

text \<open>
  C6. For the output \<open>Public key: AGE1ABCXYZ more text\<close> the extraction stores
  \<open>AGE1ABCXYZ\<close> under the key \<open>publicKey\<close>, and in every run whose key generation
  delivers this output, \<open>publicKey\<close> holds \<open>AGE1ABCXYZ\<close> when the run ends.
\<close>

theorem publicKey_of_sample_output:
  "extractPublicKey ''Public key: AGE1ABCXYZ more text'' s =
     Inr (viper_Set ''publicKey'' ''AGE1ABCXYZ'' s) \<and>
   viper_GetString (viper_Set ''publicKey'' ''AGE1ABCXYZ'' s) ''publicKey'' = ''AGE1ABCXYZ'' \<and>
   (reaches_keygen w ''Public key: AGE1ABCXYZ more text'' \<longrightarrow>
      viper_GetString (snd (sidekick_init w)) ''publicKey'' = ''AGE1ABCXYZ'')"
proof (intro conjI impI)
  show "extractPublicKey ''Public key: AGE1ABCXYZ more text'' s =
     Inr (viper_Set ''publicKey'' ''AGE1ABCXYZ'' s)"
    by (rule extractPublicKey_sample)
  show "viper_GetString (viper_Set ''publicKey'' ''AGE1ABCXYZ'' s) ''publicKey'' = ''AGE1ABCXYZ''"
    by (simp add: viper_GetString_def)
  assume r: "reaches_keygen w ''Public key: AGE1ABCXYZ more text''"
  show "viper_GetString (snd (sidekick_init w)) ''publicKey'' = ''AGE1ABCXYZ''"
  proof (cases w rule: sidekick_init_cases)
    case (init_failed s)
    with r show ?thesis by (simp add: reaches_keygen_def)
  next
    case (input_refused s)
    with r show ?thesis by (simp add: reaches_keygen_def)
  next
    case (provisioning s)
    with r show ?thesis
      by (simp add: reaches_keygen_def provision_def Let_def viper_WriteConfig_def
          extractPublicKey_sample viper_GetString_def split: option.split)
  qed
qed

theorem publicKey_of_sample_output_witness:
  "reaches_keygen world_ok ''Public key: AGE1ABCXYZ more text'' \<and>
   viper_GetString (snd (sidekick_init world_ok)) ''publicKey'' = ''AGE1ABCXYZ''"
  using publicKey_of_sample_output [where w = world_ok] world_ok_reaches_keygen by simp

text \<open>
  C10. The extraction does not return normally on every output that starts with the
  marker: on the output \<open>Public key\<close>, which splits into two pieces, the slice
  expression \<open>[2:3]\<close> is out of range and the extraction panics. An output that starts
  with the marker makes it panic exactly when it splits into fewer than three pieces,
  and a run whose key generation delivers \<open>Public key\<close> ends with that panic.
\<close>

theorem extraction_panics_on_short_output:
  "HasPrefix ''Public key'' ''Public key'' \<and>
   length (Split ''Public key'' CHR '' '') = 2 \<and>
   extractPublicKey ''Public key'' s = Inl (SliceBoundsOutOfRange 3 2) \<and>
   (HasPrefix out ''Public key'' \<longrightarrow>
      ((\<exists>p. extractPublicKey out s = Inl p) \<longleftrightarrow> length (Split out CHR '' '') < 3)) \<and>
   (reaches_keygen w ''Public key'' \<longrightarrow>
      fst (sidekick_init w) = Panic (SliceBoundsOutOfRange 3 2))"
proof (intro conjI impI)
  show "HasPrefix ''Public key'' ''Public key''"
    by (simp add: HasPrefix_def)
  show "length (Split ''Public key'' CHR '' '') = 2"
    by simp
  show short: "extractPublicKey ''Public key'' s = Inl (SliceBoundsOutOfRange 3 2)" for s
    by (simp add: extractPublicKey_def HasPrefix_def slice_2_3_def)
  show "(\<exists>p. extractPublicKey out s = Inl p) \<longleftrightarrow> length (Split out CHR '' '') < 3"
    if "HasPrefix out ''Public key''"
    using that by (auto simp: extractPublicKey_def slice_2_3_def)
  assume r: "reaches_keygen w ''Public key''"
  show "fst (sidekick_init w) = Panic (SliceBoundsOutOfRange 3 2)"
  proof (cases w rule: sidekick_init_cases)
    case (init_failed s)
    with r show ?thesis by (simp add: reaches_keygen_def)
  next
    case (input_refused s)
    with r show ?thesis by (simp add: reaches_keygen_def)
  next
    case (provisioning s)
    with r show ?thesis
      by (simp add: reaches_keygen_def provision_def Let_def short)
  qed
qed

theorem extraction_panics_on_short_output_witness:
  "reaches_keygen world_marker_only ''Public key'' \<and>
   HasPrefix ''Public key'' ''Public key'' \<and>
   length (Split ''Public key'' CHR '' '') < 3 \<and>
   (\<exists>p. extractPublicKey ''Public key'' (initial world_marker_only) = Inl p) \<and>
   fst (sidekick_init world_marker_only) = Panic (SliceBoundsOutOfRange 3 2) \<and>
   exit_status (fst (sidekick_init world_marker_only)) = 2"
proof -
  have "reaches_keygen world_marker_only ''Public key''"
    by (simp add: reaches_keygen_def condition_defs world_marker_only_def world_ok_def
        IsValidIPv4_sample)
  then show ?thesis
    using extraction_panics_on_short_output
      [where w = world_marker_only and out = "''Public key''"
        and s = "initial world_marker_only"]
    by simp
qed

text \<open>
  C1, as the code has it. When the key-generation output does not start with
  \<open>Public key\<close>, nothing fails: the \<open>publicKey\<close> setting is left as it was, the setup
  stage is reported as a success and the Docker stage is run; and when the Docker and
  Traefik stages and the write succeed, the run ends with status 0 and the file that
  is written holds the address and the email and, for \<open>publicKey\<close>, only what viper
  held before.
\<close>

theorem missing_marker_is_not_an_error:
  "reaches_keygen w out \<and> \<not> HasPrefix out ''Public key'' \<longrightarrow>
     SpinnerSuccess stage1Spinner \<in> set (trace (snd (sidekick_init w))) \<and>
     (DockerSetup, utils_RunStage w (SshClient (server_of w) ''sidekick'') DockerStage = None)
       \<in> set (run_log w) \<and>
     settings (snd (sidekick_init w)) ''publicKey'' = stored w ''publicKey'' \<and>
     (later_stages_succeed w \<and> WriteConfig w = None \<longrightarrow>
        fst (sidekick_init w) = Returned \<and>
        exit_status (fst (sidekick_init w)) = 0 \<and>
        disk (snd (sidekick_init w)) =
          Some ((stored w)(''serverAddress'' \<mapsto> server_of w,
            ''certEmail'' \<mapsto> certEmail_of w)))"
  using completed_run_no_marker [of w out] by simp

theorem missing_marker_is_not_an_error_witness:
  "reaches_keygen world_no_marker ''age-keygen: command not found'' \<and>
   \<not> HasPrefix ''age-keygen: command not found'' ''Public key'' \<and>
   later_stages_succeed world_no_marker \<and> WriteConfig world_no_marker = None \<and>
   SpinnerSuccess stage1Spinner \<in> set (trace (snd (sidekick_init world_no_marker))) \<and>
   (DockerSetup, True) \<in> set (run_log world_no_marker) \<and>
   settings (snd (sidekick_init world_no_marker)) ''publicKey'' = None \<and>
   fst (sidekick_init world_no_marker) = Returned"
  using missing_marker_is_not_an_error
    [of world_no_marker "''age-keygen: command not found''"]
    world_no_marker_reaches_keygen no_marker_in_sample
  by simp

text \<open>
  C1, as stated, fails: the key generation prints \<open>age-keygen: command not found\<close>, and
  the run reports the setup stage as a success, ends with status 0 and writes a
  configuration without \<open>publicKey\<close>.
\<close>

theorem missing_marker_counterexample:
  "utils_RunCommand world_no_marker (SshClient ''192.168.1.1'' ''sidekick'') keygenCommand =
     Inr ''age-keygen: command not found'' \<and>
   \<not> HasPrefix ''age-keygen: command not found'' ''Public key'' \<and>
   SpinnerSuccess stage1Spinner \<in> set (trace (snd (sidekick_init world_no_marker))) \<and>
   fst (sidekick_init world_no_marker) = Returned \<and>
   exit_status (fst (sidekick_init world_no_marker)) = 0 \<and>
   disk (snd (sidekick_init world_no_marker)) =
     Some [''serverAddress'' \<mapsto> ''192.168.1.1'', ''certEmail'' \<mapsto> ''ops@example.com''] \<and>
   \<not> holds_nonempty (disk (snd (sidekick_init world_no_marker))) ''publicKey''"
proof -
  have "utils_RunCommand world_no_marker (SshClient ''192.168.1.1'' ''sidekick'') keygenCommand =
     Inr ''age-keygen: command not found''"
    by (simp add: world_no_marker_def)
  then show ?thesis
    using completed_run_no_marker [of world_no_marker "''age-keygen: command not found''"]
      world_no_marker_reaches_keygen no_marker_in_sample
    by (simp add: holds_nonempty_def)
qed

subsection \<open>The complete run\<close>

text \<open>
  C7, as the code has it. When \<open>initConfig\<close> goes through, the inputs are accepted, both
  logins, the four stages and the write succeed, the validator rejects the empty
  address, and the key-generation output starts with \<open>Public key\<close> and has a third
  space-separated piece that is not empty, then the run ends with status 0 and the
  file holds \<open>serverAddress\<close>, \<open>certEmail\<close> and \<open>publicKey\<close>, none of them empty, with
  that third piece as \<open>publicKey\<close>.
\<close>

theorem completed_run_holds_configuration:
  "reaches_keygen w out \<and> later_stages_succeed w \<and> WriteConfig w = None \<and>
   HasPrefix out ''Public key'' \<and> 3 \<le> length (Split out CHR '' '') \<and>
   Split out CHR '' '' ! 2 \<noteq> [] \<and> \<not> utils_IsValidIPAddress w [] \<longrightarrow>
     fst (sidekick_init w) = Returned \<and>
     exit_status (fst (sidekick_init w)) = 0 \<and>
     holds_nonempty (disk (snd (sidekick_init w))) ''serverAddress'' \<and>
     holds_nonempty (disk (snd (sidekick_init w))) ''certEmail'' \<and>
     holds_nonempty (disk (snd (sidekick_init w))) ''publicKey'' \<and>
     disk (snd (sidekick_init w)) =
       Some ((stored w)(''serverAddress'' \<mapsto> server_of w, ''certEmail'' \<mapsto> certEmail_of w,
         ''publicKey'' \<mapsto> Split out CHR '' '' ! 2))"
proof (intro impI, elim conjE)
  assume r: "reaches_keygen w out" and l: "later_stages_succeed w"
    and f: "WriteConfig w = None" and m: "HasPrefix out ''Public key''"
    and n: "3 \<le> length (Split out CHR '' '')" and k: "Split out CHR '' '' ! 2 \<noteq> []"
    and v: "\<not> utils_IsValidIPAddress w []"
  from r have "inputs_accepted w" by (simp add: reaches_keygen_def)
  then have "server_of w \<noteq> []" "certEmail_of w \<noteq> []"
    using v by (simp_all add: server_of_nonempty certEmail_of_nonempty)
  then show "fst (sidekick_init w) = Returned \<and>
     exit_status (fst (sidekick_init w)) = 0 \<and>
     holds_nonempty (disk (snd (sidekick_init w))) ''serverAddress'' \<and>
     holds_nonempty (disk (snd (sidekick_init w))) ''certEmail'' \<and>
     holds_nonempty (disk (snd (sidekick_init w))) ''publicKey'' \<and>
     disk (snd (sidekick_init w)) =
       Some ((stored w)(''serverAddress'' \<mapsto> server_of w, ''certEmail'' \<mapsto> certEmail_of w,
         ''publicKey'' \<mapsto> Split out CHR '' '' ! 2))"
    using completed_run_third [OF r l f m n] k by (simp add: holds_nonempty_def)
qed

theorem completed_run_holds_configuration_witness:
  "reaches_keygen world_ok ''Public key: AGE1ABCXYZ more text'' \<and>
   later_stages_succeed world_ok \<and> WriteConfig world_ok = None \<and>
   HasPrefix ''Public key: AGE1ABCXYZ more text'' ''Public key'' \<and>
   \<not> utils_IsValidIPAddress world_ok [] \<and>
   exit_status (fst (sidekick_init world_ok)) = 0 \<and>
   disk (snd (sidekick_init world_ok)) =
     Some [''serverAddress'' \<mapsto> ''192.168.1.1'', ''certEmail'' \<mapsto> ''ops@example.com'',
       ''publicKey'' \<mapsto> ''AGE1ABCXYZ'']"
proof -
  have "later_stages_succeed world_ok" "\<not> utils_IsValidIPAddress world_ok []"
    by (simp_all add: later_stages_succeed_def world_ok_calls)
      (simp add: world_ok_def IsValidIPv4_rejects)
  moreover have "HasPrefix ''Public key: AGE1ABCXYZ more text'' ''Public key''"
    by (simp add: HasPrefix_def)
  ultimately show ?thesis
    using completed_run_holds_configuration
      [of world_ok "''Public key: AGE1ABCXYZ more text''"]
      world_ok_reaches_keygen world_ok_calls world_ok_conditions
    by simp
qed

text \<open>
  C7, as stated, fails: everything succeeds and the output \<open>Public key:  AGE1ABCXYZ\<close>
  (two spaces) starts with the marker, but its third piece is empty, and the file
  holds an empty \<open>publicKey\<close>. And when the output is the marker alone, there is no
  third piece and the process ends with status 2.
\<close>

theorem marker_present_counterexample:
  "reaches_keygen world_two_spaces ''Public key:  AGE1ABCXYZ'' \<and>
   later_stages_succeed world_two_spaces \<and> WriteConfig world_two_spaces = None \<and>
   HasPrefix ''Public key:  AGE1ABCXYZ'' ''Public key'' \<and>
   Contains ''Public key:  AGE1ABCXYZ'' ''Public key'' \<and>
   fst (sidekick_init world_two_spaces) = Returned \<and>
   disk (snd (sidekick_init world_two_spaces)) =
     Some [''serverAddress'' \<mapsto> ''192.168.1.1'', ''certEmail'' \<mapsto> ''ops@example.com'',
       ''publicKey'' \<mapsto> []] \<and>
   \<not> holds_nonempty (disk (snd (sidekick_init world_two_spaces))) ''publicKey'' \<and>
   reaches_keygen world_marker_only ''Public key'' \<and>
   later_stages_succeed world_marker_only \<and> WriteConfig world_marker_only = None \<and>
   HasPrefix ''Public key'' ''Public key'' \<and>
   Contains ''Public key'' ''Public key'' \<and>
   exit_status (fst (sidekick_init world_marker_only)) = 2"
proof -
  have m: "HasPrefix ''Public key:  AGE1ABCXYZ'' ''Public key''"
    by (simp add: HasPrefix_def)
  have c: "Contains ''Public key:  AGE1ABCXYZ'' ''Public key''"
    by (simp add: Contains_def HasPrefix_def upt_rec [of 0])
  have n: "3 \<le> length (Split ''Public key:  AGE1ABCXYZ'' CHR '' '')"
    and k: "Split ''Public key:  AGE1ABCXYZ'' CHR '' '' ! 2 = []"
    by simp_all
  have two: "fst (sidekick_init world_two_spaces) = Returned \<and>
      disk (snd (sidekick_init world_two_spaces)) =
        Some [''serverAddress'' \<mapsto> ''192.168.1.1'', ''certEmail'' \<mapsto> ''ops@example.com'',
          ''publicKey'' \<mapsto> []]"
    using completed_run_third [OF world_two_spaces_reaches_keygen(1-3) m n]
      world_two_spaces_reaches_keygen
    by (simp add: k)
  have m': "HasPrefix ''Public key'' ''Public key''"
    by (simp add: HasPrefix_def)
  have c': "Contains ''Public key'' ''Public key''"
    by (simp add: Contains_def HasPrefix_def upt_rec [of 0])
  have "fst (sidekick_init world_marker_only) = Panic (SliceBoundsOutOfRange 3 2)"
    using panicking_run_short [OF world_marker_only_reaches_keygen(1) m'] by simp
  then have only: "exit_status (fst (sidekick_init world_marker_only)) = 2"
    by simp
  show ?thesis
    using two only m c m' c' world_two_spaces_reaches_keygen(1-3)
      world_marker_only_reaches_keygen
    by (simp add: holds_nonempty_def)
qed

subsection \<open>The write of the configuration\<close>

text \<open>
  C8. When the run reaches the key generation, the Docker and Traefik stages succeed
  and the write of the configuration fails, the run is fatal: the process ends with
  status 2 by a panic (with the error of the write, unless the extraction has already
  panicked), the command function does not return, and the message that the VPS is
  ready is never printed.
\<close>

theorem write_failure_is_fatal:
  "reaches_keygen w out \<and> later_stages_succeed w \<and> WriteConfig w = Some err \<longrightarrow>
     exit_status (fst (sidekick_init w)) = 2 \<and>
     fst (sidekick_init w) \<noteq> Returned \<and>
     \<not> list_ex ready_message (trace (snd (sidekick_init w))) \<and>
     (fst (sidekick_init w) = Panic (PanicError err) \<or>
      fst (sidekick_init w) = Panic (SliceBoundsOutOfRange 3 (length (Split out CHR '' ''))))"
proof (intro impI, elim conjE)
  assume r: "reaches_keygen w out" and l: "later_stages_succeed w"
    and f: "WriteConfig w = Some err"
  show "exit_status (fst (sidekick_init w)) = 2 \<and>
     fst (sidekick_init w) \<noteq> Returned \<and>
     \<not> list_ex ready_message (trace (snd (sidekick_init w))) \<and>
     (fst (sidekick_init w) = Panic (PanicError err) \<or>
      fst (sidekick_init w) = Panic (SliceBoundsOutOfRange 3 (length (Split out CHR '' ''))))"
  proof (cases w rule: sidekick_init_cases)
    case (init_failed s)
    with r show ?thesis by (simp add: reaches_keygen_def)
  next
    case (input_refused s)
    with r show ?thesis by (simp add: reaches_keygen_def)
  next
    case (provisioning s)
    have quiet: "\<not> list_ex ready_message (trace s)"
      using provisioning(2) by (rule local_events_quiet)
    consider (none) "\<not> HasPrefix out ''Public key''"
      | (third) "HasPrefix out ''Public key''" "3 \<le> length (Split out CHR '' '')"
      | (short) "HasPrefix out ''Public key''" "length (Split out CHR '' '') < 3"
      by linarith
    then show ?thesis
    proof cases
      case none
      with r l f provisioning(1) quiet show ?thesis
        by (simp add: reaches_keygen_def later_stages_succeed_def provision_def Let_def
            viper_WriteConfig_def extractPublicKey_no_marker)
    next
      case third
      with r l f provisioning(1) quiet show ?thesis
        by (simp add: reaches_keygen_def later_stages_succeed_def provision_def Let_def
            viper_WriteConfig_def extractPublicKey_third)
    next
      case short
      with r l f provisioning(1) quiet show ?thesis
        by (simp add: reaches_keygen_def later_stages_succeed_def provision_def Let_def
            viper_WriteConfig_def extractPublicKey_short)
    qed
  qed
qed

theorem write_failure_is_fatal_witness:
  "reaches_keygen world_write_fails ''Public key: AGE1ABCXYZ more text'' \<and>
   later_stages_succeed world_write_fails \<and>
   WriteConfig world_write_fails = Some (GoError ''permission denied'') \<and>
   exit_status (fst (sidekick_init world_write_fails)) = 2 \<and>
   fst (sidekick_init world_write_fails) \<noteq> Returned \<and>
   \<not> list_ex ready_message (trace (snd (sidekick_init world_write_fails)))"
proof -
  have "reaches_keygen world_write_fails ''Public key: AGE1ABCXYZ more text''"
    and "later_stages_succeed world_write_fails"
    and "WriteConfig world_write_fails = Some (GoError ''permission denied'')"
    by (simp_all add: reaches_keygen_def later_stages_succeed_def condition_defs
        world_write_fails_def world_ok_def IsValidIPv4_sample)
  then show ?thesis
    using write_failure_is_fatal
      [of world_write_fails "''Public key: AGE1ABCXYZ more text''"
        "GoError ''permission denied''"]
    by simp
qed

subsection \<open>The exit status\<close>

text \<open>
  C2, at the inputs where the code departs from it. The operator types \<open>localhost\<close> where
  the address is asked, or nothing where the email is asked: the command prints its
  error message and calls \<open>os.Exit(0)\<close>, so the process ends with status 0. (Every other
  failure ends it with status 1 or 2, and the complete run with status 0: see
  \<open>exit_status_zero_iff\<close>.)
\<close>

theorem invalid_input_exits_with_status_zero:
  "pre_supplied world_bad_address ''serverAddress'' = [] \<and>
   serverInput world_bad_address = ''localhost'' \<and>
   \<not> utils_IsValidIPAddress world_bad_address ''localhost'' \<and>
   fst (sidekick_init world_bad_address) = Exit 0 \<and>
   exit_status (fst (sidekick_init world_bad_address)) = 0 \<and>
   pre_supplied world_no_email ''certEmail'' = [] \<and>
   certEmailInput world_no_email = [] \<and>
   fst (sidekick_init world_no_email) = Exit 0 \<and>
   exit_status (fst (sidekick_init world_no_email)) = 0"
  using refused_run(1) [of world_bad_address] refused_run(1) [of world_no_email]
    world_bad_address_conditions world_no_email_conditions
  by simp

subsection \<open>The validation of the address\<close>

text \<open>
  C3, at the input where the code departs from it. The address \<open>localhost\<close>, which the
  validator rejects, is given with the flag \<open>--server\<close>: the check of line 48 is inside
  the branch that asks for the address (line 44) and is skipped, and the run logs
  into \<open>localhost\<close> as \<open>root\<close>. The sibling path does what the claim says: the same
  address typed at the prompt fails the check, and the run ends without any remote
  call. (For every world: \<open>typed_address_validated\<close> and \<open>validator_not_consulted\<close>.)
\<close>

theorem flag_address_is_not_validated:
  "pre_supplied world_flag_localhost ''serverAddress'' = ''localhost'' \<and>
   \<not> utils_IsValidIPAddress world_flag_localhost ''localhost'' \<and>
   LoginCall ''localhost'' ''root'' None
     \<in> set (trace (snd (sidekick_init world_flag_localhost))) \<and>
   remote_event (LoginCall ''localhost'' ''root'' None) \<and>
   pre_supplied world_bad_address ''serverAddress'' = [] \<and>
   serverInput world_bad_address = ''localhost'' \<and>
   \<not> utils_IsValidIPAddress world_bad_address ''localhost'' \<and>
   list_all (\<lambda>e. \<not> remote_event e) (trace (snd (sidekick_init world_bad_address))) \<and>
   fst (sidekick_init world_bad_address) = Exit 0"
proof -
  have "list_all local_event (trace (snd (sidekick_init world_bad_address)))"
    and "fst (sidekick_init world_bad_address) = Exit 0"
    using refused_run [of world_bad_address] world_bad_address_conditions(1,2) by simp_all
  then have "list_all (\<lambda>e. \<not> remote_event e) (trace (snd (sidekick_init world_bad_address)))"
    and "fst (sidekick_init world_bad_address) = Exit 0"
    using local_events_quiet(2) by simp_all
  then show ?thesis
    using world_flag_localhost_conditions world_flag_localhost_login
      world_bad_address_conditions
    by simp
qed

subsection \<open>The refused operational login\<close>

text \<open>
  C4, as the code has it. When the login as \<open>sidekick\<close> is called and fails, the calls of
  the run are the login as \<open>root\<close>, the account-creation stage and this login, and
  nothing else: no later stage, no key generation and no write. The process ends by
  a panic with the error of the login, and the configuration file is as \<open>initConfig\<close>
  left it before the command function started.
\<close>

theorem refused_operational_login_writes_nothing:
  "LoginCall h ''sidekick'' (Some err) \<in> set (trace (snd (sidekick_init w))) \<longrightarrow>
     run_log w = [(BootstrapLogin, True), (AccountCreation, True), (OperationalLogin, False)] \<and>
     fst (sidekick_init w) = Panic (PanicError err) \<and>
     disk (snd (sidekick_init w)) = disk (snd (initConfig w (initial w)))"
proof
  assume a: "LoginCall h ''sidekick'' (Some err) \<in> set (trace (snd (sidekick_init w)))"
  show "run_log w = [(BootstrapLogin, True), (AccountCreation, True), (OperationalLogin, False)] \<and>
     fst (sidekick_init w) = Panic (PanicError err) \<and>
     disk (snd (sidekick_init w)) = disk (snd (initConfig w (initial w)))"
  proof (cases w rule: sidekick_init_cases)
    case (init_failed s)
    with a show ?thesis using local_events_no_login [of "trace s"] by simp
  next
    case (input_refused s)
    with a show ?thesis using local_events_no_login [of "trace s"] by simp
  next
    case (provisioning s)
    with a show ?thesis
      using provision_login_refused [of h err w "server_of w" "certEmail_of w" s]
      by (simp add: run_log_def initConfig_disk)
  qed
qed

theorem refused_operational_login_writes_nothing_witness:
  "LoginCall ''192.168.1.1'' ''sidekick'' (Some (GoError ''handshake failed''))
     \<in> set (trace (snd (sidekick_init world_login_refused))) \<and>
   run_log world_login_refused =
     [(BootstrapLogin, True), (AccountCreation, True), (OperationalLogin, False)] \<and>
   fst (sidekick_init world_login_refused) = Panic (PanicError (GoError ''handshake failed'')) \<and>
   disk (snd (sidekick_init world_login_refused)) =
     disk (snd (initConfig world_login_refused (initial world_login_refused)))"
  using refused_operational_login_writes_nothing
    [of "''192.168.1.1''" "GoError ''handshake failed''" world_login_refused]
    world_login_refused_run(1)
  by simp

text \<open>
  C4, as stated, fails for the invocation as a whole: a configuration file that held
  an address before the invocation is empty after it, although the login as
  \<open>sidekick\<close> was refused and nothing was written by the command function
  (\<open>initConfig\<close> has truncated the file).
\<close>

theorem configuration_file_counterexample:
  "LoginCall ''192.168.1.1'' ''sidekick'' (Some (GoError ''handshake failed''))
     \<in> set (trace (snd (sidekick_init world_login_refused))) \<and>
   (AccountCreation, True) \<in> set (run_log world_login_refused) \<and>
   disk0 world_login_refused = Some [''serverAddress'' \<mapsto> ''192.168.1.1''] \<and>
   disk (snd (sidekick_init world_login_refused)) = Some Map.empty \<and>
   disk (snd (sidekick_init world_login_refused)) \<noteq> disk0 world_login_refused"
proof -
  have "Map.empty \<noteq> [''serverAddress'' \<mapsto> ''192.168.1.1'']"
    by (rule notI, drule fun_cong [where x = "''serverAddress''"], simp)
  then show ?thesis
    using world_login_refused_run world_login_refused_conditions(5) by simp
qed

end
